theory Spec2Isabelle
  imports Main "HOL-Library.Sublist"
begin

section \<open>Python values and primitives used by the agents\<close>

text \<open>
  The agents of \<^verbatim>\<open>openssa/core/ooda_rag/builtin_agents.py\<close> and the program space of
  \<^verbatim>\<open>openssa/l2/program_space/__init__.py\<close> use a handful of Python primitives: list
  slicing, list indexing, \<^verbatim>\<open>dict.get\<close>, \<^verbatim>\<open>dict[k]\<close>, \<^verbatim>\<open>dict[k] = v\<close>, \<^verbatim>\<open>str.strip\<close> and
  \<^verbatim>\<open>str.startswith\<close>. Each is written out here with the behaviour Python gives it,
  exceptions included.
\<close>

datatype py_error = TypeError | KeyError string | AttributeError | IndexError

text \<open>
  The values \<^verbatim>\<open>json.loads\<close> can produce. A JSON object is a Python dict, kept as an
  association list in insertion order, each key once. The payload of a float is its
  literal: no agent computes with it.
\<close>

datatype pyval =
    PNone
  | PBool bool
  | PInt int
  | PFloat string
  | PStr string
  | PList "pyval list"
  | PDict "(string \<times> pyval) list"

text \<open>\<^verbatim>\<open>d.get(k, default)\<close> on a dict.\<close>

definition dict_get :: "('k \<times> 'v) list \<Rightarrow> 'k \<Rightarrow> 'v \<Rightarrow> 'v" where
  "dict_get d k dflt = (case map_of d k of Some v \<Rightarrow> v | None \<Rightarrow> dflt)"

text \<open>\<^verbatim>\<open>d[k]\<close> on a dict keyed by strings: a missing key raises \<^verbatim>\<open>KeyError(k)\<close>.\<close>

definition dict_getitem :: "(string \<times> 'v) list \<Rightarrow> string \<Rightarrow> py_error + 'v" where
  "dict_getitem d k = (case map_of d k of Some v \<Rightarrow> Inr v | None \<Rightarrow> Inl (KeyError k))"

text \<open>
  \<^verbatim>\<open>d[k] = v\<close>: an existing key keeps its position and takes the new value, a new key
  goes to the end.
\<close>

primrec dict_setitem :: "('k \<times> 'v) list \<Rightarrow> 'k \<Rightarrow> 'v \<Rightarrow> ('k \<times> 'v) list" where
  "dict_setitem [] k v = [(k, v)]"
| "dict_setitem (e # d) k v = (if fst e = k then (k, v) # d else e # dict_setitem d k v)"

definition dict_keys :: "('k \<times> 'v) list \<Rightarrow> 'k set" where
  "dict_keys d = set (map fst d)"

text \<open>
  \<^verbatim>\<open>x.get(k, default)\<close> on the result of \<^verbatim>\<open>json.loads\<close>: only a dict has the method, on
  every other value Python raises \<^verbatim>\<open>AttributeError\<close>.
\<close>

definition pyval_get :: "pyval \<Rightarrow> string \<Rightarrow> pyval \<Rightarrow> py_error + pyval" where
  "pyval_get x k dflt = (case x of PDict d \<Rightarrow> Inr (dict_get d k dflt) | _ \<Rightarrow> Inl AttributeError)"

text \<open>
  A slice bound of \<^verbatim>\<open>xs[start:stop]\<close> for a list of length \<open>n\<close>: an absent bound takes
  its default, a negative one counts from the end, and both are clamped to \<open>0..n\<close>.
\<close>

definition slice_bound :: "nat \<Rightarrow> int option \<Rightarrow> nat \<Rightarrow> nat" where
  "slice_bound n b dflt =
     (case b of
        None \<Rightarrow> dflt
      | Some i \<Rightarrow> if i < 0 then nat (max (i + int n) 0) else min (nat i) n)"

definition py_slice :: "'a list \<Rightarrow> int option \<Rightarrow> int option \<Rightarrow> 'a list" where
  "py_slice xs start stop =
     (let n = length xs;
          lo = slice_bound n start 0;
          hi = slice_bound n stop n
      in take (hi - lo) (drop lo xs))"

text \<open>
  \<^verbatim>\<open>xs[i]\<close> on a list: an index from \<open>- length xs\<close> up to \<open>- 1\<close> counts from the end,
  one from \<open>0\<close> up to \<open>length xs - 1\<close> from the start, any other raises \<^verbatim>\<open>IndexError\<close>.
\<close>

definition list_getitem :: "'a list \<Rightarrow> int \<Rightarrow> py_error + 'a" where
  "list_getitem xs i =
     (if - int (length xs) \<le> i \<and> i < 0 then Inr (xs ! nat (i + int (length xs)))
      else if 0 \<le> i \<and> i < int (length xs) then Inr (xs ! nat i)
      else Inl IndexError)"

text \<open>
  Strings are lists of characters with code points below 256. Among these,
  \<^verbatim>\<open>str.isspace\<close> holds for 9 to 13, 28 to 32, 133 and 160, and \<^verbatim>\<open>str.strip()\<close> removes
  them from both ends.
\<close>

definition isspace :: "char \<Rightarrow> bool" where
  "isspace c = ((of_char c :: nat) \<in> {9, 10, 11, 12, 13, 28, 29, 30, 31, 32, 133, 160})"

definition str_strip :: "string \<Rightarrow> string" where
  "str_strip s = rev (dropWhile isspace (rev (dropWhile isspace s)))"

definition str_startswith :: "string \<Rightarrow> string \<Rightarrow> bool" where
  "str_startswith s p = (take (length p) s = p)"

section \<open>Messages, list objects and the language model\<close>

text \<open>
  A message is a dict with the keys \<^verbatim>\<open>role\<close> and \<^verbatim>\<open>content\<close>. The agents build
  messages and read them with \<^verbatim>\<open>.get\<close>, they never assign into one, so a message is a
  value.

  A conversation is a Python list, a mutable object that the caller and an agent may
  share. The store \<open>list_objs\<close> holds every list object, a reference is a position in
  it, and a new list object is put at the end. A reference that a running program holds
  points to a live object: it is below the length of \<open>list_objs\<close>. \<open>llm_calls\<close>
  records the \<^verbatim>\<open>messages\<close> argument of every \<^verbatim>\<open>llm.call\<close>, oldest first.
\<close>

type_synonym message = "(string \<times> string) list"

type_synonym ref = nat

record world =
  list_objs :: "message list list"
  llm_calls :: "message list list"

definition deref :: "world \<Rightarrow> ref \<Rightarrow> message list" where
  "deref w r = list_objs w ! r"

definition new_list :: "message list \<Rightarrow> world \<Rightarrow> ref \<times> world" where
  "new_list xs w = (length (list_objs w), w\<lparr>list_objs := list_objs w @ [xs]\<rparr>)"

text \<open>
  \<^verbatim>\<open>AnLLM\<close> is outside the sources at hand. Of \<^verbatim>\<open>llm.call(messages=..., response_format=...)\<close>
  the agents read \<^verbatim>\<open>response.choices[0].message.content\<close> only, so a language model is
  the function from the messages to that completion text. \<open>llm_call\<close> is one round
  trip: it records the request and hands back the completion.
\<close>

type_synonym AnLLM = "message list \<Rightarrow> string"

definition llm_call :: "AnLLM \<Rightarrow> ref \<Rightarrow> world \<Rightarrow> string \<times> world" where
  "llm_call llm messages w =
     (llm (deref w messages), w\<lparr>llm_calls := llm_calls w @ [deref w messages]\<rparr>)"

text \<open>
  \<^verbatim>\<open>class AgentRole\<close>.
\<close>

definition USER :: string where "USER = ''user''"
definition SYSTEM :: string where "SYSTEM = ''system''"
definition ASSISTANT :: string where "ASSISTANT = ''assistant''"

text \<open>
  \<^verbatim>\<open>BuiltInAgentPrompt\<close> (module \<^verbatim>\<open>openssa.core.ooda_rag.prompts\<close>) is outside the sources
  at hand, so the templates are parameters. A template used through \<^verbatim>\<open>.format\<close> is the
  function of its named fields, in the order the call site gives them.
\<close>

record BuiltInAgentPrompt =
  ASK_USER :: "string \<Rightarrow> string \<Rightarrow> string"
  PROBLEM_STATEMENT :: string
  CONTENT_VALIDATION :: "pyval list option \<Rightarrow> string \<Rightarrow> string"
  SYNTHESIZE_RESULT :: "pyval list option \<Rightarrow> string \<Rightarrow> string"
  GENERATE_OODA_PLAN :: string

section \<open>The task agents\<close>

text \<open>
  Every agent stores \<^verbatim>\<open>self.llm\<close> and \<^verbatim>\<open>self.conversation\<close>; \<^verbatim>\<open>AskUserAgent\<close> adds
  \<^verbatim>\<open>self.ask_user_heuristic\<close>, \<^verbatim>\<open>ContextValidator\<close> and \<^verbatim>\<open>SynthesizingAgent\<close> add
  \<^verbatim>\<open>self.context\<close>, the field \<open>agent_context\<close> here.

  In a constructor, \<^verbatim>\<open>conversation[-10:] if conversation else []\<close> tests the truth value
  of an \<^verbatim>\<open>Optional[List]\<close>: \<^verbatim>\<open>None\<close> and the empty list are false. Both the slice and
  \<^verbatim>\<open>[]\<close> make a new list object, and so does \<^verbatim>\<open>self.conversation + [system_message]\<close>
  in \<^verbatim>\<open>execute\<close>.

  \<^verbatim>\<open>json.loads\<close> is a parameter \<open>json_loads\<close> whose result \<open>None\<close> stands for
  \<^verbatim>\<open>json.JSONDecodeError\<close>. An exception that \<^verbatim>\<open>execute\<close> does not catch is the result
  \<open>Inl\<close>. The decorator \<^verbatim>\<open>Utils.timeit\<close> and the logger calls do not change what
  \<^verbatim>\<open>execute\<close> returns and are left out.
\<close>

record TaskAgent =
  llm :: AnLLM
  conversation :: ref

record AskUserAgent = TaskAgent +
  ask_user_heuristic :: string

record ContextAgent = TaskAgent +
  agent_context :: "pyval list option"

type_synonym GoalAgent = TaskAgent
type_synonym ContextValidator = ContextAgent
type_synonym SynthesizingAgent = ContextAgent
type_synonym OODAPlanAgent = TaskAgent

subsection \<open>AskUserAgent\<close>

definition AskUserAgent_init ::
  "AnLLM \<Rightarrow> string \<Rightarrow> ref option \<Rightarrow> world \<Rightarrow> AskUserAgent \<times> world" where
  "AskUserAgent_init llm' ask_user_heuristic' conversation' w =
     (let (r, w') =
            (case conversation' of
               None \<Rightarrow> new_list [] w
             | Some c \<Rightarrow>
                 if deref w c \<noteq> [] then new_list (py_slice (deref w c) (Some (- 10)) None) w
                 else new_list [] w)
      in (\<lparr>llm = llm', conversation = r, ask_user_heuristic = str_strip ask_user_heuristic'\<rparr>, w'))"

definition AskUserAgent_execute ::
  "BuiltInAgentPrompt \<Rightarrow> (string \<Rightarrow> pyval option) \<Rightarrow> AskUserAgent \<Rightarrow> string \<Rightarrow> world
     \<Rightarrow> (py_error + pyval) \<times> world" where
  "AskUserAgent_execute P json_loads self task w =
     (if ask_user_heuristic self = [] then (Inr (PStr ''''), w)
      else
        let system_message =
              [(''role'', SYSTEM), (''content'', ASK_USER P task (ask_user_heuristic self))];
            (conversation', w1) = new_list (deref w (conversation self) @ [system_message]) w;
            (json_str, w2) = llm_call (llm self) conversation' w1
        in case json_loads json_str of
             Some jobject \<Rightarrow> (pyval_get jobject ''question'' (PStr ''''), w2)
           | None \<Rightarrow> (Inr (PStr ''''), w2))"

subsection \<open>GoalAgent\<close>

definition GoalAgent_init :: "AnLLM \<Rightarrow> ref option \<Rightarrow> world \<Rightarrow> GoalAgent \<times> world" where
  "GoalAgent_init llm' conversation' w =
     (let (r, w') =
            (case conversation' of
               None \<Rightarrow> new_list [] w
             | Some c \<Rightarrow>
                 if deref w c \<noteq> [] then new_list (py_slice (deref w c) (Some (- 10)) None) w
                 else new_list [] w)
      in (\<lparr>llm = llm', conversation = r\<rparr>, w'))"

text \<open>
  In the handler of \<^verbatim>\<open>json.JSONDecodeError\<close>, \<^verbatim>\<open>conversation\<close> is the local variable of
  \<^verbatim>\<open>execute\<close>, the list \<^verbatim>\<open>self.conversation + [system_message]\<close>.
\<close>

definition GoalAgent_execute ::
  "BuiltInAgentPrompt \<Rightarrow> (string \<Rightarrow> pyval option) \<Rightarrow> GoalAgent \<Rightarrow> string \<Rightarrow> world
     \<Rightarrow> (py_error + pyval) \<times> world" where
  "GoalAgent_execute P json_loads self task w =
     (let system_message = [(''role'', SYSTEM), (''content'', PROBLEM_STATEMENT P)];
          (conversation', w1) = new_list (deref w (conversation self) @ [system_message]) w;
          (json_str, w2) = llm_call (llm self) conversation' w1
      in case json_loads json_str of
           Some jobject \<Rightarrow> (pyval_get jobject ''problem statement'' (PStr ''''), w2)
         | None \<Rightarrow>
             (case list_getitem (deref w2 conversation') (- 1) of
                Inl e \<Rightarrow> (Inl e, w2)
              | Inr m \<Rightarrow> (Inr (PStr (dict_get m ''content'' '''')), w2)))"

subsection \<open>ContextValidator\<close>

definition ContextValidator_init ::
  "AnLLM \<Rightarrow> ref option \<Rightarrow> pyval list option \<Rightarrow> world \<Rightarrow> ContextValidator \<times> world" where
  "ContextValidator_init llm' conversation' context' w =
     (let (r, w') =
            (case conversation' of
               None \<Rightarrow> new_list [] w
             | Some c \<Rightarrow>
                 if deref w c \<noteq> []
                 then new_list (py_slice (deref w c) (Some (- 10)) (Some (- 1))) w
                 else new_list [] w)
      in (\<lparr>llm = llm', conversation = r, agent_context = context'\<rparr>, w'))"

definition ContextValidator_execute ::
  "BuiltInAgentPrompt \<Rightarrow> (string \<Rightarrow> pyval option) \<Rightarrow> ContextValidator \<Rightarrow> string \<Rightarrow> world
     \<Rightarrow> (py_error + pyval) \<times> world" where
  "ContextValidator_execute P json_loads self task w =
     (let system_message =
            [(''role'', ''system''),
             (''content'', CONTENT_VALIDATION P (agent_context self) task)];
          (conversation', w1) = new_list (deref w (conversation self) @ [system_message]) w;
          (json_str, w2) = llm_call (llm self) conversation' w1
      in case json_loads json_str of
           None \<Rightarrow> (Inr (PDict []), w2)
         | Some jobject \<Rightarrow> (Inr jobject, w2))"

subsection \<open>SynthesizingAgent\<close>

definition SynthesizingAgent_init ::
  "AnLLM \<Rightarrow> ref option \<Rightarrow> pyval list option \<Rightarrow> world \<Rightarrow> SynthesizingAgent \<times> world" where
  "SynthesizingAgent_init llm' conversation' context' w =
     (let (r, w') =
            (case conversation' of
               None \<Rightarrow> new_list [] w
             | Some c \<Rightarrow>
                 if deref w c \<noteq> []
                 then new_list (py_slice (deref w c) (Some (- 10)) (Some (- 1))) w
                 else new_list [] w)
      in (\<lparr>llm = llm', conversation = r, agent_context = context'\<rparr>, w'))"

definition SynthesizingAgent_execute ::
  "BuiltInAgentPrompt \<Rightarrow> (string \<Rightarrow> pyval option) \<Rightarrow> SynthesizingAgent \<Rightarrow> string \<Rightarrow> world
     \<Rightarrow> (py_error + pyval) \<times> world" where
  "SynthesizingAgent_execute P json_loads self task w =
     (let system_message =
            [(''role'', ''system''),
             (''content'', SYNTHESIZE_RESULT P (agent_context self) task)];
          (conversation', w1) = new_list (deref w (conversation self) @ [system_message]) w;
          (json_str, w2) = llm_call (llm self) conversation' w1
      in case json_loads json_str of
           Some jobject \<Rightarrow> (Inr jobject, w2)
         | None \<Rightarrow> (Inr (PDict []), w2))"

subsection \<open>OODAPlanAgent\<close>

definition OODAPlanAgent_init ::
  "AnLLM \<Rightarrow> ref option \<Rightarrow> world \<Rightarrow> OODAPlanAgent \<times> world" where
  "OODAPlanAgent_init llm' conversation' w =
     (let (r, w') =
            (case conversation' of
               None \<Rightarrow> new_list [] w
             | Some c \<Rightarrow>
                 if deref w c \<noteq> [] then new_list (py_slice (deref w c) (Some (- 10)) None) w
                 else new_list [] w)
      in (\<lparr>llm = llm', conversation = r\<rparr>, w'))"

definition OODAPlanAgent_execute ::
  "BuiltInAgentPrompt \<Rightarrow> (string \<Rightarrow> pyval option) \<Rightarrow> OODAPlanAgent \<Rightarrow> string \<Rightarrow> world
     \<Rightarrow> (py_error + pyval) \<times> world" where
  "OODAPlanAgent_execute P json_loads self task w =
     (let system_message = [(''role'', ''system''), (''content'', GENERATE_OODA_PLAN P)];
          (conversation', w1) = new_list (deref w (conversation self) @ [system_message]) w;
          (json_str, w2) = llm_call (llm self) conversation' w1
      in case json_loads json_str of
           Some jobject \<Rightarrow> (Inr jobject, w2)
         | None \<Rightarrow> (Inr (PDict []), w2))"

section \<open>The program space\<close>

text \<open>
  \<^verbatim>\<open>ProgramSpace\<close> is a dataclass of two dicts and a language model, all three made by
  default factories. Its language model \<^verbatim>\<open>AnLM\<close>, the resources \<^verbatim>\<open>AResource\<close>,
  \<^verbatim>\<open>knowledge_injection_lm_chat_msgs\<close>, \<^verbatim>\<open>PROGRAM_SEARCH_PROMPT_TEMPLATE\<close> and \<^verbatim>\<open>json.dumps\<close>
  are outside the sources at hand. Of a resource the code reads \<^verbatim>\<open>unique_name\<close> and
  \<^verbatim>\<open>overview\<close>. A language model is the function \<open>get_response\<close> from prompt and
  history to the response text, together with the record \<open>exchanges\<close> of every round
  trip made so far: prompt, history and response, oldest first. The other three are
  parameters of \<open>find_program\<close>. Programs and pieces of knowledge are opaque, so their
  types are type variables. A Python set is given by the list of its elements in
  iteration order.
\<close>

type_synonym LMChatHist = "message list"

record AResource =
  unique_name :: string
  overview :: string

record AnLM =
  get_response :: "string \<Rightarrow> LMChatHist option \<Rightarrow> string"
  exchanges :: "(string \<times> LMChatHist option \<times> string) list"

record 'p ProgramSpace =
  descriptions :: "(string \<times> string) list"
  programs :: "(string \<times> 'p) list"
  lm :: AnLM

text \<open>\<^verbatim>\<open>ProgramSpace(lm=...)\<close>: both dicts start empty.\<close>

definition ProgramSpace_init :: "AnLM \<Rightarrow> 'p ProgramSpace" where
  "ProgramSpace_init lm' = \<lparr>descriptions = [], programs = [], lm = lm'\<rparr>"

definition add_or_update_program ::
  "'p ProgramSpace \<Rightarrow> string \<Rightarrow> string \<Rightarrow> 'p \<Rightarrow> 'p ProgramSpace" where
  "add_or_update_program self name description program =
     self\<lparr>descriptions := dict_setitem (descriptions self) name description,
          programs := dict_setitem (programs self) name program\<rparr>"

text \<open>One round trip of \<^verbatim>\<open>self.lm.get_response(prompt=..., history=...)\<close>.\<close>

definition lm_get_response ::
  "'p ProgramSpace \<Rightarrow> string \<Rightarrow> LMChatHist option \<Rightarrow> string \<times> 'p ProgramSpace" where
  "lm_get_response self prompt history =
     (let response = get_response (lm self) prompt history
      in (response,
          self\<lparr>lm := (lm self)\<lparr>exchanges := exchanges (lm self) @ [(prompt, history, response)]\<rparr>\<rparr>))"

text \<open>
  \<open>find_program\<close> returns what the method returns or raises, \<open>Inr None\<close> being the
  return value \<^verbatim>\<open>None\<close>, together with the program space as the call leaves it.
  The arguments of \<^verbatim>\<open>.format\<close> are evaluated from left to right: the dict comprehension
  over \<^verbatim>\<open>resources\<close> comes before \<^verbatim>\<open>json.dumps\<close>, and iterating \<^verbatim>\<open>None\<close> raises
  \<^verbatim>\<open>TypeError\<close>.
\<close>

definition find_program ::
  "('k list \<Rightarrow> LMChatHist) \<Rightarrow> (string \<Rightarrow> (string \<times> string) list \<Rightarrow> string \<Rightarrow> string)
     \<Rightarrow> ((string \<times> string) list \<Rightarrow> string)
     \<Rightarrow> 'p ProgramSpace \<Rightarrow> string \<Rightarrow> 'k list option \<Rightarrow> AResource list option
     \<Rightarrow> (py_error + 'p option) \<times> 'p ProgramSpace" where
  "find_program knowledge_injection_lm_chat_msgs PROGRAM_SEARCH_PROMPT_TEMPLATE json_dumps
       self problem knowledge resources =
     (let knowledge_lm_hist =
            (case knowledge of
               None \<Rightarrow> None
             | Some ks \<Rightarrow> if ks \<noteq> [] then Some (knowledge_injection_lm_chat_msgs ks) else None)
      in case resources of
           None \<Rightarrow> (Inl TypeError, self)
         | Some rs \<Rightarrow>
             let resource_overviews =
                   foldl (\<lambda>d r. dict_setitem d (unique_name r) (overview r)) [] rs;
                 prompt = PROGRAM_SEARCH_PROMPT_TEMPLATE problem resource_overviews
                            (json_dumps (descriptions self));
                 (matching_program_name, self') = lm_get_response self prompt knowledge_lm_hist
             in if str_startswith matching_program_name ''NONE'' then (Inr None, self')
                else case dict_getitem (programs self') matching_program_name of
                       Inl e \<Rightarrow> (Inl e, self')
                     | Inr program \<Rightarrow> (Inr (Some program), self'))"

section \<open>Observations and example inputs\<close>

text \<open>
  The conversation an agent holds, read off the pair a constructor returns.
\<close>

definition held_conversation :: "'a TaskAgent_scheme \<times> world \<Rightarrow> message list" where
  "held_conversation aw = deref (snd aw) (conversation (fst aw))"

text \<open>
  Concrete inputs on which the theorems below are instantiated: a store with a
  conversation of one message (reference 0) and one of twelve (reference 1), a language
  model that answers with text that is not JSON and one that answers with the empty JSON
  object, a decoder that agrees with \<^verbatim>\<open>json.loads\<close> on these two answers, and prompt
  templates.
\<close>

definition ex_message :: "string \<Rightarrow> message" where
  "ex_message s = [(''role'', ''user''), (''content'', s)]"

definition ex_world :: world where
  "ex_world =
     \<lparr>list_objs = [[ex_message ''What is the free cash flow?''],
               map ex_message [''m01'', ''m02'', ''m03'', ''m04'', ''m05'', ''m06'',
                               ''m07'', ''m08'', ''m09'', ''m10'', ''m11'', ''m12'']],
      llm_calls = []\<rparr>"

definition ex_llm_invalid :: AnLLM where
  "ex_llm_invalid messages = ''not json''"

definition ex_llm_valid :: AnLLM where
  "ex_llm_valid messages = ''{}''"

definition ex_json_loads :: "string \<Rightarrow> pyval option" where
  "ex_json_loads s = (if s = ''{}'' then Some (PDict []) else None)"

definition ex_prompts :: BuiltInAgentPrompt where
  "ex_prompts =
     \<lparr>ASK_USER = (\<lambda>problem_statement heuristic. ''ask: '' @ problem_statement @ '' / '' @ heuristic),
      PROBLEM_STATEMENT = ''derive the problem statement'',
      CONTENT_VALIDATION = (\<lambda>ctx query. ''validate: '' @ query),
      SYNTHESIZE_RESULT = (\<lambda>ctx query. ''synthesize: '' @ query),
      GENERATE_OODA_PLAN = ''generate the OODA plan''\<rparr>"

text \<open>
  For the program space: the registry of one program named \<^verbatim>\<open>cash-flow-plan\<close> (programs
  are numbers here), and language models that answer with that name, with a name that is
  not registered, and with the no-match token.
\<close>

definition ex_lm :: "string \<Rightarrow> AnLM" where
  "ex_lm answer = \<lparr>get_response = (\<lambda>prompt history. answer), exchanges = []\<rparr>"

definition ex_space :: "string \<Rightarrow> nat ProgramSpace" where
  "ex_space answer =
     add_or_update_program (ProgramSpace_init (ex_lm answer))
       ''cash-flow-plan'' ''computes free cash flow'' 1"

definition ex_knowledge_msgs :: "string list \<Rightarrow> LMChatHist" where
  "ex_knowledge_msgs ks = map (\<lambda>k. [(''role'', ''system''), (''content'', k)]) ks"

definition ex_json_dumps :: "(string \<times> string) list \<Rightarrow> string" where
  "ex_json_dumps d = concat (map (\<lambda>(k, v). k @ '': '' @ v @ ''; '') d)"

definition ex_template :: "string \<Rightarrow> (string \<times> string) list \<Rightarrow> string \<Rightarrow> string" where
  "ex_template problem resource_overviews program_descriptions =
     problem @ '' | '' @ ex_json_dumps resource_overviews @ '' | '' @ program_descriptions"

section \<open>Slices and the conversation window\<close>

lemma slice_bound_minus_10: "slice_bound n (Some (- 10)) d = n - 10"
  by (simp add: slice_bound_def)

lemma slice_bound_minus_1: "slice_bound n (Some (- 1)) d = n - 1"
  by (simp add: slice_bound_def)

lemma py_slice_last10: "py_slice xs (Some (- 10)) None = drop (length xs - 10) xs"
  by (simp add: py_slice_def slice_bound_minus_10 slice_bound_def[of _ None])

lemma py_slice_last10_but1:
  "py_slice xs (Some (- 10)) (Some (- 1)) = butlast (drop (length xs - 10) xs)"
  by (simp add: py_slice_def Let_def slice_bound_minus_10 slice_bound_minus_1 butlast_conv_take)

lemma AskUserAgent_init_held:
  "held_conversation (AskUserAgent_init l h (Some c) w)
     = drop (length (deref w c) - 10) (deref w c)"
  by (simp add: held_conversation_def AskUserAgent_init_def new_list_def deref_def
      py_slice_last10 split: prod.splits)

lemma GoalAgent_init_held:
  "held_conversation (GoalAgent_init l (Some c) w)
     = drop (length (deref w c) - 10) (deref w c)"
  by (simp add: held_conversation_def GoalAgent_init_def new_list_def deref_def
      py_slice_last10 split: prod.splits)

lemma OODAPlanAgent_init_held:
  "held_conversation (OODAPlanAgent_init l (Some c) w)
     = drop (length (deref w c) - 10) (deref w c)"
  by (simp add: held_conversation_def OODAPlanAgent_init_def new_list_def deref_def
      py_slice_last10 split: prod.splits)

lemma ContextValidator_init_held:
  "held_conversation (ContextValidator_init l (Some c) ctx w)
     = butlast (drop (length (deref w c) - 10) (deref w c))"
  by (simp add: held_conversation_def ContextValidator_init_def new_list_def deref_def
      py_slice_last10_but1 split: prod.splits)

lemma SynthesizingAgent_init_held:
  "held_conversation (SynthesizingAgent_init l (Some c) ctx w)
     = butlast (drop (length (deref w c) - 10) (deref w c))"
  by (simp add: held_conversation_def SynthesizingAgent_init_def new_list_def deref_def
      py_slice_last10_but1 split: prod.splits)

lemma last10_length: "length (drop (length xs - 10) xs) = min (length xs) 10"
  by auto

lemma last10_subseq: "subseq (drop (length xs - 10) xs) xs"
  by (simp add: suffix_drop suffix_imp_subseq)

lemma last10_short: "length xs < 10 \<Longrightarrow> drop (length xs - 10) xs = xs"
  by simp

lemma last10_but1_length:
  "length (butlast (drop (length xs - 10) xs)) = min (length xs) 10 - 1"
  by auto

lemma last10_but1_subseq: "subseq (butlast (drop (length xs - 10) xs)) xs"
proof -
  have "subseq (butlast (drop (length xs - 10) xs)) (drop (length xs - 10) xs)"
    by (simp add: prefix_imp_subseq prefixeq_butlast)
  then show ?thesis
    using last10_subseq subseq_order.trans by blast
qed

lemma last10_but1_short: "length xs < 10 \<Longrightarrow> butlast (drop (length xs - 10) xs) = butlast xs"
  by simp

text \<open>
  C2, amended for the two agents that drop the newest entry. With \<open>L\<close> the length of
  the caller's conversation and the window size 10: \<^verbatim>\<open>AskUserAgent\<close>, \<^verbatim>\<open>GoalAgent\<close> and
  \<^verbatim>\<open>OODAPlanAgent\<close> hold exactly the last \<open>min L 10\<close> entries, so a list of length
  \<open>min L 10\<close>; \<^verbatim>\<open>ContextValidator\<close> and \<^verbatim>\<open>SynthesizingAgent\<close> hold exactly these
  entries without the newest one, so a list of length \<open>min L 10 - 1\<close>; each held list
  is a subsequence of the caller's conversation, so the order of the retained entries is
  kept; and a conversation of fewer than 10 entries is held unchanged by the first three
  agents and without its newest entry, otherwise unchanged, by the other two.
\<close>

theorem conversation_window:
  "held_conversation (AskUserAgent_init l h (Some c) w)
     = drop (length (deref w c) - 10) (deref w c)
   \<and> length (held_conversation (AskUserAgent_init l h (Some c) w)) = min (length (deref w c)) 10
   \<and> subseq (held_conversation (AskUserAgent_init l h (Some c) w)) (deref w c)
   \<and> (length (deref w c) < 10 \<longrightarrow>
        held_conversation (AskUserAgent_init l h (Some c) w) = deref w c)
   \<and> held_conversation (GoalAgent_init l (Some c) w)
     = drop (length (deref w c) - 10) (deref w c)
   \<and> length (held_conversation (GoalAgent_init l (Some c) w)) = min (length (deref w c)) 10
   \<and> subseq (held_conversation (GoalAgent_init l (Some c) w)) (deref w c)
   \<and> (length (deref w c) < 10 \<longrightarrow>
        held_conversation (GoalAgent_init l (Some c) w) = deref w c)
   \<and> held_conversation (OODAPlanAgent_init l (Some c) w)
     = drop (length (deref w c) - 10) (deref w c)
   \<and> length (held_conversation (OODAPlanAgent_init l (Some c) w)) = min (length (deref w c)) 10
   \<and> subseq (held_conversation (OODAPlanAgent_init l (Some c) w)) (deref w c)
   \<and> (length (deref w c) < 10 \<longrightarrow>
        held_conversation (OODAPlanAgent_init l (Some c) w) = deref w c)
   \<and> held_conversation (ContextValidator_init l (Some c) ctx w)
     = butlast (drop (length (deref w c) - 10) (deref w c))
   \<and> length (held_conversation (ContextValidator_init l (Some c) ctx w))
        = min (length (deref w c)) 10 - 1
   \<and> subseq (held_conversation (ContextValidator_init l (Some c) ctx w)) (deref w c)
   \<and> (length (deref w c) < 10 \<longrightarrow>
        held_conversation (ContextValidator_init l (Some c) ctx w) = butlast (deref w c))
   \<and> held_conversation (SynthesizingAgent_init l (Some c) ctx w)
     = butlast (drop (length (deref w c) - 10) (deref w c))
   \<and> length (held_conversation (SynthesizingAgent_init l (Some c) ctx w))
        = min (length (deref w c)) 10 - 1
   \<and> subseq (held_conversation (SynthesizingAgent_init l (Some c) ctx w)) (deref w c)
   \<and> (length (deref w c) < 10 \<longrightarrow>
        held_conversation (SynthesizingAgent_init l (Some c) ctx w) = butlast (deref w c))"
  unfolding AskUserAgent_init_held GoalAgent_init_held OODAPlanAgent_init_held
    ContextValidator_init_held SynthesizingAgent_init_held
  using last10_length[of "deref w c"] last10_subseq[of "deref w c"]
    last10_short[of "deref w c"] last10_but1_length[of "deref w c"]
    last10_but1_subseq[of "deref w c"] last10_but1_short[of "deref w c"]
  by simp

theorem conversation_window_witness:
  "length (deref ex_world 0) < 10
   \<and> held_conversation (AskUserAgent_init ex_llm_invalid '''' (Some 0) ex_world) = deref ex_world 0
   \<and> held_conversation (ContextValidator_init ex_llm_invalid (Some 0) None ex_world)
        = butlast (deref ex_world 0)
   \<and> deref ex_world 1
        = map ex_message [''m01'', ''m02'', ''m03'', ''m04'', ''m05'', ''m06'',
                          ''m07'', ''m08'', ''m09'', ''m10'', ''m11'', ''m12'']
   \<and> held_conversation (GoalAgent_init ex_llm_invalid (Some 1) ex_world)
        = map ex_message [''m03'', ''m04'', ''m05'', ''m06'', ''m07'', ''m08'', ''m09'',
                          ''m10'', ''m11'', ''m12'']
   \<and> held_conversation (SynthesizingAgent_init ex_llm_invalid (Some 1) None ex_world)
        = map ex_message [''m03'', ''m04'', ''m05'', ''m06'', ''m07'', ''m08'', ''m09'',
                          ''m10'', ''m11'']"
  using conversation_window[of ex_llm_invalid "''''" 0 ex_world None]
    conversation_window[of ex_llm_invalid "''''" 1 ex_world None]
  by (simp add: ex_world_def deref_def)

text \<open>
  C2 as first stated keeps every conversation of fewer than 10 entries unchanged, for
  all five agents. \<^verbatim>\<open>ContextValidator\<close> slices with \<^verbatim>\<open>[-10:-1]\<close>: of a conversation
  of one message it holds the empty list.
\<close>

theorem conversation_window_counterexample:
  "length (deref ex_world 0) < 10
   \<and> held_conversation (ContextValidator_init ex_llm_invalid (Some 0) None ex_world)
        \<noteq> deref ex_world 0"
  by (simp add: ContextValidator_init_held) (simp add: ex_world_def deref_def)

section \<open>What a constructor and an execute call do to the store\<close>

lemma AskUserAgent_init_world:
  "\<exists>xs. AskUserAgent_init l h conv w
     = (\<lparr>llm = l, conversation = length (list_objs w), ask_user_heuristic = str_strip h\<rparr>,
        w\<lparr>list_objs := list_objs w @ [xs]\<rparr>)"
  by (cases conv) (auto simp add: AskUserAgent_init_def new_list_def)

lemma GoalAgent_init_world:
  "\<exists>xs. GoalAgent_init l conv w
     = (\<lparr>llm = l, conversation = length (list_objs w)\<rparr>, w\<lparr>list_objs := list_objs w @ [xs]\<rparr>)"
  by (cases conv) (auto simp add: GoalAgent_init_def new_list_def)

lemma ContextValidator_init_world:
  "\<exists>xs. ContextValidator_init l conv ctx w
     = (\<lparr>llm = l, conversation = length (list_objs w), agent_context = ctx\<rparr>,
        w\<lparr>list_objs := list_objs w @ [xs]\<rparr>)"
  by (cases conv) (auto simp add: ContextValidator_init_def new_list_def)

lemma SynthesizingAgent_init_world:
  "\<exists>xs. SynthesizingAgent_init l conv ctx w
     = (\<lparr>llm = l, conversation = length (list_objs w), agent_context = ctx\<rparr>,
        w\<lparr>list_objs := list_objs w @ [xs]\<rparr>)"
  by (cases conv) (auto simp add: SynthesizingAgent_init_def new_list_def)

lemma OODAPlanAgent_init_world:
  "\<exists>xs. OODAPlanAgent_init l conv w
     = (\<lparr>llm = l, conversation = length (list_objs w)\<rparr>, w\<lparr>list_objs := list_objs w @ [xs]\<rparr>)"
  by (cases conv) (auto simp add: OODAPlanAgent_init_def new_list_def)

lemma AskUserAgent_execute_world:
  "ask_user_heuristic self \<noteq> [] \<Longrightarrow>
   snd (AskUserAgent_execute P jl self task w) =
     w\<lparr>list_objs := list_objs w @ [deref w (conversation self) @
            [[(''role'', SYSTEM), (''content'', ASK_USER P task (ask_user_heuristic self))]]],
       llm_calls := llm_calls w @ [deref w (conversation self) @
            [[(''role'', SYSTEM), (''content'', ASK_USER P task (ask_user_heuristic self))]]]\<rparr>"
  by (simp add: AskUserAgent_execute_def new_list_def llm_call_def deref_def Let_def
      split: option.splits)

lemma GoalAgent_execute_world:
  "snd (GoalAgent_execute P jl self task w) =
     w\<lparr>list_objs := list_objs w @ [deref w (conversation self) @
            [[(''role'', SYSTEM), (''content'', PROBLEM_STATEMENT P)]]],
       llm_calls := llm_calls w @ [deref w (conversation self) @
            [[(''role'', SYSTEM), (''content'', PROBLEM_STATEMENT P)]]]\<rparr>"
  by (simp add: GoalAgent_execute_def new_list_def llm_call_def deref_def Let_def
      list_getitem_def split: option.splits sum.splits)

lemma ContextValidator_execute_world:
  "snd (ContextValidator_execute P jl self task w) =
     w\<lparr>list_objs := list_objs w @ [deref w (conversation self) @
            [[(''role'', ''system''),
              (''content'', CONTENT_VALIDATION P (agent_context self) task)]]],
       llm_calls := llm_calls w @ [deref w (conversation self) @
            [[(''role'', ''system''),
              (''content'', CONTENT_VALIDATION P (agent_context self) task)]]]\<rparr>"
  by (simp add: ContextValidator_execute_def new_list_def llm_call_def deref_def Let_def
      split: option.splits)

lemma SynthesizingAgent_execute_world:
  "snd (SynthesizingAgent_execute P jl self task w) =
     w\<lparr>list_objs := list_objs w @ [deref w (conversation self) @
            [[(''role'', ''system''),
              (''content'', SYNTHESIZE_RESULT P (agent_context self) task)]]],
       llm_calls := llm_calls w @ [deref w (conversation self) @
            [[(''role'', ''system''),
              (''content'', SYNTHESIZE_RESULT P (agent_context self) task)]]]\<rparr>"
  by (simp add: SynthesizingAgent_execute_def new_list_def llm_call_def deref_def Let_def
      split: option.splits)

lemma OODAPlanAgent_execute_world:
  "snd (OODAPlanAgent_execute P jl self task w) =
     w\<lparr>list_objs := list_objs w @ [deref w (conversation self) @
            [[(''role'', ''system''), (''content'', GENERATE_OODA_PLAN P)]]],
       llm_calls := llm_calls w @ [deref w (conversation self) @
            [[(''role'', ''system''), (''content'', GENERATE_OODA_PLAN P)]]]\<rparr>"
  by (simp add: OODAPlanAgent_execute_def new_list_def llm_call_def deref_def Let_def
      split: option.splits)

lemma append_frame:
  "c < length (list_objs w) \<Longrightarrow> deref (w\<lparr>list_objs := list_objs w @ ys, llm_calls := cs\<rparr>) c = deref w c"
  "c < length (list_objs w) \<Longrightarrow> deref (w\<lparr>list_objs := list_objs w @ ys\<rparr>) c = deref w c"
  by (simp_all add: deref_def nth_append)

text \<open>
  C8. Neither a constructor nor an \<^verbatim>\<open>execute\<close> call of the five agents changes a list
  object that exists when it is called, in particular the caller's conversation \<open>c\<close>,
  whichever conversation argument \<open>conv\<close> is passed (\<open>Some c\<close> included): the
  constructor stores a new list object, so the agent's reference differs from \<open>c\<close>, and
  \<^verbatim>\<open>self.conversation + [system_message]\<close> is a new list object again. After each call
  the list at \<open>c\<close> is what it was before, element for element.
\<close>

theorem caller_conversation_unchanged:
  assumes "c < length (list_objs w)"
  shows
    "deref (snd (AskUserAgent_init l h conv w)) c = deref w c
     \<and> conversation (fst (AskUserAgent_init l h conv w)) \<noteq> c
     \<and> deref (snd (GoalAgent_init l conv w)) c = deref w c
     \<and> conversation (fst (GoalAgent_init l conv w)) \<noteq> c
     \<and> deref (snd (ContextValidator_init l conv ctx w)) c = deref w c
     \<and> conversation (fst (ContextValidator_init l conv ctx w)) \<noteq> c
     \<and> deref (snd (SynthesizingAgent_init l conv ctx w)) c = deref w c
     \<and> conversation (fst (SynthesizingAgent_init l conv ctx w)) \<noteq> c
     \<and> deref (snd (OODAPlanAgent_init l conv w)) c = deref w c
     \<and> conversation (fst (OODAPlanAgent_init l conv w)) \<noteq> c
     \<and> deref (snd (AskUserAgent_execute P jl a1 task w)) c = deref w c
     \<and> deref (snd (GoalAgent_execute P jl a2 task w)) c = deref w c
     \<and> deref (snd (ContextValidator_execute P jl a3 task w)) c = deref w c
     \<and> deref (snd (SynthesizingAgent_execute P jl a4 task w)) c = deref w c
     \<and> deref (snd (OODAPlanAgent_execute P jl a5 task w)) c = deref w c"
proof -
  obtain x1 where i1: "AskUserAgent_init l h conv w
     = (\<lparr>llm = l, conversation = length (list_objs w), ask_user_heuristic = str_strip h\<rparr>,
        w\<lparr>list_objs := list_objs w @ [x1]\<rparr>)"
    using AskUserAgent_init_world by blast
  obtain x2 where i2: "GoalAgent_init l conv w
     = (\<lparr>llm = l, conversation = length (list_objs w)\<rparr>, w\<lparr>list_objs := list_objs w @ [x2]\<rparr>)"
    using GoalAgent_init_world by blast
  obtain x3 where i3: "ContextValidator_init l conv ctx w
     = (\<lparr>llm = l, conversation = length (list_objs w), agent_context = ctx\<rparr>,
        w\<lparr>list_objs := list_objs w @ [x3]\<rparr>)"
    using ContextValidator_init_world by blast
  obtain x4 where i4: "SynthesizingAgent_init l conv ctx w
     = (\<lparr>llm = l, conversation = length (list_objs w), agent_context = ctx\<rparr>,
        w\<lparr>list_objs := list_objs w @ [x4]\<rparr>)"
    using SynthesizingAgent_init_world by blast
  obtain x5 where i5: "OODAPlanAgent_init l conv w
     = (\<lparr>llm = l, conversation = length (list_objs w)\<rparr>, w\<lparr>list_objs := list_objs w @ [x5]\<rparr>)"
    using OODAPlanAgent_init_world by blast
  have e1: "deref (snd (AskUserAgent_execute P jl a1 task w)) c = deref w c"
  proof (cases "ask_user_heuristic a1 = []")
    case True
    then show ?thesis by (simp add: AskUserAgent_execute_def)
  next
    case False
    then show ?thesis using assms by (simp add: AskUserAgent_execute_world append_frame)
  qed
  show ?thesis
    using assms e1
    by (simp add: i1 i2 i3 i4 i5 append_frame GoalAgent_execute_world
        ContextValidator_execute_world SynthesizingAgent_execute_world
        OODAPlanAgent_execute_world)
qed

theorem caller_conversation_unchanged_witness:
  "0 < length (list_objs ex_world)
   \<and> deref (snd (GoalAgent_init ex_llm_invalid (Some 0) ex_world)) 0 = deref ex_world 0
   \<and> conversation (fst (GoalAgent_init ex_llm_invalid (Some 0) ex_world)) \<noteq> 0
   \<and> deref (snd (GoalAgent_execute ex_prompts ex_json_loads
        \<lparr>llm = ex_llm_invalid, conversation = 1\<rparr> '''' ex_world)) 0 = deref ex_world 0"
  using caller_conversation_unchanged[of 0 ex_world ex_llm_invalid "''''" "Some 0" None
      ex_prompts ex_json_loads _ "''''" "\<lparr>llm = ex_llm_invalid, conversation = 1\<rparr>"]
  by (simp add: ex_world_def)

section \<open>Completions that are not JSON\<close>

lemma list_getitem_last: "list_getitem (xs @ [x]) (- 1) = Inr x"
  by (simp add: list_getitem_def)

lemma AskUserAgent_execute_invalid:
  "jl (llm self (deref w (conversation self) @
         [[(''role'', SYSTEM), (''content'', ASK_USER P task (ask_user_heuristic self))]])) = None \<Longrightarrow>
   fst (AskUserAgent_execute P jl self task w) = Inr (PStr '''')"
  by (simp add: AskUserAgent_execute_def new_list_def llm_call_def deref_def Let_def)

lemma GoalAgent_execute_invalid:
  "jl (llm self (deref w (conversation self) @
         [[(''role'', SYSTEM), (''content'', PROBLEM_STATEMENT P)]])) = None \<Longrightarrow>
   fst (GoalAgent_execute P jl self task w) = Inr (PStr (PROBLEM_STATEMENT P))"
  by (simp add: GoalAgent_execute_def new_list_def llm_call_def deref_def Let_def
      list_getitem_last dict_get_def)

lemma ContextValidator_execute_invalid:
  "jl (llm self (deref w (conversation self) @
         [[(''role'', ''system''),
           (''content'', CONTENT_VALIDATION P (agent_context self) task)]])) = None \<Longrightarrow>
   fst (ContextValidator_execute P jl self task w) = Inr (PDict [])"
  by (simp add: ContextValidator_execute_def new_list_def llm_call_def deref_def Let_def)

lemma SynthesizingAgent_execute_invalid:
  "jl (llm self (deref w (conversation self) @
         [[(''role'', ''system''),
           (''content'', SYNTHESIZE_RESULT P (agent_context self) task)]])) = None \<Longrightarrow>
   fst (SynthesizingAgent_execute P jl self task w) = Inr (PDict [])"
  by (simp add: SynthesizingAgent_execute_def new_list_def llm_call_def deref_def Let_def)

lemma OODAPlanAgent_execute_invalid:
  "jl (llm self (deref w (conversation self) @
         [[(''role'', ''system''), (''content'', GENERATE_OODA_PLAN P)]])) = None \<Longrightarrow>
   fst (OODAPlanAgent_execute P jl self task w) = Inr (PDict [])"
  by (simp add: OODAPlanAgent_execute_def new_list_def llm_call_def deref_def Let_def)

lemma ex_invalid: "ex_json_loads (ex_llm_invalid messages) = None"
  by (simp add: ex_json_loads_def ex_llm_invalid_def)

text \<open>
  C1. The claim: when the completion is not JSON, \<^verbatim>\<open>GoalAgent.execute\<close> returns the
  content of the last message of the conversation the caller passed in. The handler
  evaluates \<^verbatim>\<open>conversation[-1]\<close> on the local list
  \<^verbatim>\<open>self.conversation + [system_message]\<close>, whose last entry is the system message
  (\<open>GoalAgent_execute_invalid\<close>). Evaluated on the conversation of one user message
  \<^verbatim>\<open>What is the free cash flow?\<close> and a completion that is not JSON, \<^verbatim>\<open>execute\<close>
  returns the text of \<^verbatim>\<open>BuiltInAgentPrompt.PROBLEM_STATEMENT\<close>, not the user's message.
\<close>

theorem GoalAgent_fallback_is_system_prompt:
  "fst (GoalAgent_execute ex_prompts ex_json_loads
          (fst (GoalAgent_init ex_llm_invalid (Some 0) ex_world)) ''''
          (snd (GoalAgent_init ex_llm_invalid (Some 0) ex_world)))
     = Inr (PStr ''derive the problem statement'')
   \<and> PROBLEM_STATEMENT ex_prompts = ''derive the problem statement''
   \<and> deref ex_world 0 = [[(''role'', ''user''), (''content'', ''What is the free cash flow?'')]]
   \<and> ex_json_loads (ex_llm_invalid
        (deref ex_world 0 @ [[(''role'', SYSTEM), (''content'', PROBLEM_STATEMENT ex_prompts)]]))
       = None"
proof -
  have "llm (fst (GoalAgent_init ex_llm_invalid (Some 0) ex_world)) = ex_llm_invalid"
    using GoalAgent_init_world[of ex_llm_invalid "Some 0" ex_world] by auto
  then have "fst (GoalAgent_execute ex_prompts ex_json_loads
          (fst (GoalAgent_init ex_llm_invalid (Some 0) ex_world)) ''''
          (snd (GoalAgent_init ex_llm_invalid (Some 0) ex_world)))
     = Inr (PStr (PROBLEM_STATEMENT ex_prompts))"
    by (simp add: GoalAgent_execute_invalid ex_invalid)
  then show ?thesis
    by (simp add: ex_prompts_def ex_invalid) (simp add: ex_world_def deref_def ex_message_def)
qed

text \<open>
  C4. The claim: on a completion that is not JSON, each agent returns its fallback and
  raises nothing: empty text for \<^verbatim>\<open>AskUserAgent\<close>, the text of the last message for
  \<^verbatim>\<open>GoalAgent\<close>, the empty dict for \<^verbatim>\<open>ContextValidator\<close>, \<^verbatim>\<open>SynthesizingAgent\<close> and
  \<^verbatim>\<open>OODAPlanAgent\<close>. The five lemmas above give what the code returns for every input:
  no agent raises, four return the fallback of the claim, and \<^verbatim>\<open>GoalAgent\<close> returns the
  text of its own system prompt. Evaluated on the conversation of one user message
  \<^verbatim>\<open>What is the free cash flow?\<close> and a completion that is not JSON:
\<close>

theorem invalid_json_fallbacks_example:
  "fst (AskUserAgent_execute ex_prompts ex_json_loads
          (fst (AskUserAgent_init ex_llm_invalid ''ask only if statement is ambiguous'' (Some 0) ex_world))
          ''task''
          (snd (AskUserAgent_init ex_llm_invalid ''ask only if statement is ambiguous'' (Some 0) ex_world)))
     = Inr (PStr '''')
   \<and> fst (GoalAgent_execute ex_prompts ex_json_loads
          (fst (GoalAgent_init ex_llm_invalid (Some 0) ex_world)) ''task''
          (snd (GoalAgent_init ex_llm_invalid (Some 0) ex_world)))
     = Inr (PStr ''derive the problem statement'')
   \<and> dict_get (last (deref ex_world 0)) ''content'' '''' = ''What is the free cash flow?''
   \<and> fst (ContextValidator_execute ex_prompts ex_json_loads
          (fst (ContextValidator_init ex_llm_invalid (Some 0) None ex_world)) ''task''
          (snd (ContextValidator_init ex_llm_invalid (Some 0) None ex_world)))
     = Inr (PDict [])
   \<and> fst (SynthesizingAgent_execute ex_prompts ex_json_loads
          (fst (SynthesizingAgent_init ex_llm_invalid (Some 0) None ex_world)) ''task''
          (snd (SynthesizingAgent_init ex_llm_invalid (Some 0) None ex_world)))
     = Inr (PDict [])
   \<and> fst (OODAPlanAgent_execute ex_prompts ex_json_loads
          (fst (OODAPlanAgent_init ex_llm_invalid (Some 0) ex_world)) ''task''
          (snd (OODAPlanAgent_init ex_llm_invalid (Some 0) ex_world)))
     = Inr (PDict [])"
proof -
  have l1: "llm (fst (AskUserAgent_init ex_llm_invalid h (Some 0) ex_world)) = ex_llm_invalid" for h
    using AskUserAgent_init_world[of ex_llm_invalid h "Some 0" ex_world] by auto
  have l2: "llm (fst (GoalAgent_init ex_llm_invalid (Some 0) ex_world)) = ex_llm_invalid"
    using GoalAgent_init_world[of ex_llm_invalid "Some 0" ex_world] by auto
  have l3: "llm (fst (ContextValidator_init ex_llm_invalid (Some 0) None ex_world)) = ex_llm_invalid"
    using ContextValidator_init_world[of ex_llm_invalid "Some 0" None ex_world] by auto
  have l4: "llm (fst (SynthesizingAgent_init ex_llm_invalid (Some 0) None ex_world)) = ex_llm_invalid"
    using SynthesizingAgent_init_world[of ex_llm_invalid "Some 0" None ex_world] by auto
  have l5: "llm (fst (OODAPlanAgent_init ex_llm_invalid (Some 0) ex_world)) = ex_llm_invalid"
    using OODAPlanAgent_init_world[of ex_llm_invalid "Some 0" ex_world] by auto
  have c: "dict_get (last (deref ex_world 0)) ''content'' '''' = ''What is the free cash flow?''"
    by (simp add: ex_world_def deref_def ex_message_def dict_get_def)
  have p: "PROBLEM_STATEMENT ex_prompts = ''derive the problem statement''"
    by (simp add: ex_prompts_def)
  show ?thesis
    using c p
    by (simp add: l1 l2 l3 l4 l5 ex_invalid AskUserAgent_execute_invalid GoalAgent_execute_invalid
        ContextValidator_execute_invalid SynthesizingAgent_execute_invalid
        OODAPlanAgent_execute_invalid)
qed

section \<open>The heuristic of AskUserAgent\<close>

lemma str_strip_whitespace: "\<forall>c\<in>set h. isspace c \<Longrightarrow> str_strip h = []"
proof -
  assume "\<forall>c\<in>set h. isspace c"
  then have d: "dropWhile isspace h = []"
    by (simp add: dropWhile_eq_Nil_conv)
  show ?thesis
    unfolding str_strip_def d by simp
qed

lemma AskUserAgent_init_fields:
  "llm (fst (AskUserAgent_init l h conv w)) = l"
  "ask_user_heuristic (fst (AskUserAgent_init l h conv w)) = str_strip h"
  using AskUserAgent_init_world[of l h conv w] by auto

text \<open>
  C6. For every task, \<^verbatim>\<open>AskUserAgent.execute\<close> with an empty heuristic, the field
  \<^verbatim>\<open>self.ask_user_heuristic\<close> that \<^verbatim>\<open>execute\<close> reads, returns empty text and makes no
  call of the language model; with a non-empty heuristic it makes exactly one call,
  with the held conversation followed by the system message.
\<close>

theorem AskUserAgent_llm_invocations:
  "(ask_user_heuristic self = [] \<longrightarrow>
      fst (AskUserAgent_execute P jl self task w) = Inr (PStr '''')
      \<and> llm_calls (snd (AskUserAgent_execute P jl self task w)) = llm_calls w)
   \<and> (ask_user_heuristic self \<noteq> [] \<longrightarrow>
      llm_calls (snd (AskUserAgent_execute P jl self task w))
        = llm_calls w @ [deref w (conversation self) @
            [[(''role'', SYSTEM), (''content'', ASK_USER P task (ask_user_heuristic self))]]])"
proof (cases "ask_user_heuristic self = []")
  case True
  then show ?thesis by (simp add: AskUserAgent_execute_def)
next
  case False
  then show ?thesis by (simp add: AskUserAgent_execute_world)
qed

theorem AskUserAgent_llm_invocations_witness:
  "ask_user_heuristic (fst (AskUserAgent_init ex_llm_valid '''' (Some 0) ex_world)) = []
   \<and> fst (AskUserAgent_execute ex_prompts ex_json_loads
        (fst (AskUserAgent_init ex_llm_valid '''' (Some 0) ex_world)) ''task''
        (snd (AskUserAgent_init ex_llm_valid '''' (Some 0) ex_world)))
      = Inr (PStr '''')
   \<and> length (llm_calls (snd (AskUserAgent_execute ex_prompts ex_json_loads
        (fst (AskUserAgent_init ex_llm_valid '''' (Some 0) ex_world)) ''task''
        (snd (AskUserAgent_init ex_llm_valid '''' (Some 0) ex_world)))))
      = 0
   \<and> ask_user_heuristic
        (fst (AskUserAgent_init ex_llm_valid '' ask only if statement is ambiguous '' (Some 0) ex_world))
      = ''ask only if statement is ambiguous''
   \<and> length (llm_calls (snd (AskUserAgent_execute ex_prompts ex_json_loads
        (fst (AskUserAgent_init ex_llm_valid '' ask only if statement is ambiguous '' (Some 0) ex_world))
        ''task''
        (snd (AskUserAgent_init ex_llm_valid '' ask only if statement is ambiguous '' (Some 0) ex_world)))))
      = 1"
proof -
  have h0: "ask_user_heuristic (fst (AskUserAgent_init ex_llm_valid '''' (Some 0) ex_world)) = []"
    by (simp add: AskUserAgent_init_fields str_strip_def)
  have h1: "ask_user_heuristic
        (fst (AskUserAgent_init ex_llm_valid '' ask only if statement is ambiguous '' (Some 0) ex_world))
      = ''ask only if statement is ambiguous''"
    by (simp add: AskUserAgent_init_fields str_strip_def isspace_def)
  have c0: "llm_calls (snd (AskUserAgent_init ex_llm_valid h (Some 0) ex_world)) = []" for h
    using AskUserAgent_init_world[of ex_llm_valid h "Some 0" ex_world]
    by (auto simp: ex_world_def)
  show ?thesis
    using h0 h1
      AskUserAgent_llm_invocations[of
        "fst (AskUserAgent_init ex_llm_valid '''' (Some 0) ex_world)"
        ex_prompts ex_json_loads "''task''"
        "snd (AskUserAgent_init ex_llm_valid '''' (Some 0) ex_world)"]
      AskUserAgent_llm_invocations[of
        "fst (AskUserAgent_init ex_llm_valid '' ask only if statement is ambiguous '' (Some 0) ex_world)"
        ex_prompts ex_json_loads "''task''"
        "snd (AskUserAgent_init ex_llm_valid '' ask only if statement is ambiguous '' (Some 0) ex_world)"]
    by (simp add: c0)
qed

text \<open>
  C10. For a heuristic argument made of whitespace only, the constructor builds the
  same agent as for the empty heuristic, since it stores the stripped argument, and
  \<^verbatim>\<open>execute\<close> on that agent returns empty text for every task and leaves the world as
  it is: no call of the language model is made.
\<close>

theorem whitespace_heuristic_as_empty:
  assumes "\<forall>c\<in>set h. isspace c"
  shows "AskUserAgent_init l h conv w = AskUserAgent_init l '''' conv w
    \<and> AskUserAgent_execute P jl (fst (AskUserAgent_init l h conv w)) task
        (snd (AskUserAgent_init l h conv w))
      = (Inr (PStr ''''), snd (AskUserAgent_init l h conv w))"
proof -
  have s: "str_strip h = []" "str_strip '''' = []"
    using assms by (simp_all add: str_strip_whitespace)
  have i: "AskUserAgent_init l h conv w = AskUserAgent_init l '''' conv w"
    by (simp add: AskUserAgent_init_def s)
  have "ask_user_heuristic (fst (AskUserAgent_init l h conv w)) = []"
    using AskUserAgent_init_world[of l h conv w] s by auto
  then show ?thesis
    using i by (simp add: AskUserAgent_execute_def)
qed

theorem whitespace_heuristic_as_empty_witness:
  "(isspace CHR '' '' \<and> isspace (CHR 0x09) \<and> isspace (CHR 0x0A))
   \<and> AskUserAgent_init ex_llm_valid [CHR '' '', CHR 0x09, CHR 0x0A] (Some 0) ex_world
       = AskUserAgent_init ex_llm_valid '''' (Some 0) ex_world
   \<and> fst (AskUserAgent_execute ex_prompts ex_json_loads
        (fst (AskUserAgent_init ex_llm_valid [CHR '' '', CHR 0x09, CHR 0x0A] (Some 0) ex_world))
        ''task''
        (snd (AskUserAgent_init ex_llm_valid [CHR '' '', CHR 0x09, CHR 0x0A] (Some 0) ex_world)))
      = Inr (PStr '''')"
proof -
  have ws: "\<forall>c\<in>set [CHR '' '', CHR 0x09, CHR 0x0A]. isspace c"
    by (simp add: isspace_def)
  have w3: "isspace CHR '' '' \<and> isspace (CHR 0x09) \<and> isspace (CHR 0x0A)"
    by (simp add: isspace_def)
  note t = whitespace_heuristic_as_empty[OF ws, of ex_llm_valid "Some 0" ex_world
      ex_prompts ex_json_loads "''task''"]
  from t have e: "fst (AskUserAgent_execute ex_prompts ex_json_loads
        (fst (AskUserAgent_init ex_llm_valid [CHR '' '', CHR 0x09, CHR 0x0A] (Some 0) ex_world))
        ''task''
        (snd (AskUserAgent_init ex_llm_valid [CHR '' '', CHR 0x09, CHR 0x0A] (Some 0) ex_world)))
      = Inr (PStr '''')"
    by (metis fst_conv)
  show ?thesis
    using w3 t e by blast
qed

section \<open>The registry\<close>

lemma map_of_dict_setitem: "map_of (dict_setitem d k v) = (map_of d)(k \<mapsto> v)"
  by (induction d) auto

lemma dict_keys_setitem: "dict_keys (dict_setitem d k v) = insert k (dict_keys d)"
  by (induction d) (auto simp: dict_keys_def)

lemma dict_getitem_setitem: "dict_getitem (dict_setitem d k v) k = Inr v"
  by (simp add: dict_getitem_def map_of_dict_setitem)


lemma add_or_update_program_keys:
  "dict_keys (descriptions s) = dict_keys (programs s) \<Longrightarrow>
   dict_keys (descriptions (add_or_update_program s n d p))
     = dict_keys (programs (add_or_update_program s n d p))"
  by (simp add: add_or_update_program_def dict_keys_setitem)

lemma upserts_keys:
  "dict_keys (descriptions s) = dict_keys (programs s) \<Longrightarrow>
   dict_keys (descriptions (foldl (\<lambda>s (n, d, p). add_or_update_program s n d p) s ops))
     = dict_keys (programs (foldl (\<lambda>s (n, d, p). add_or_update_program s n d p) s ops))"
proof (induction ops arbitrary: s)
  case Nil
  then show ?case by simp
next
  case (Cons op ops)
  obtain n d p where op: "op = (n, d, p)"
    by (cases op) auto
  show ?case
    using Cons.IH[of "add_or_update_program s n d p"] Cons.prems
    by (simp add: op add_or_update_program_keys)
qed

lemma dict_getitem_setitem_other:
  "k' \<noteq> k \<Longrightarrow> dict_getitem (dict_setitem d k v) k' = dict_getitem d k'"
  by (simp add: dict_getitem_def map_of_dict_setitem)

lemma upserts_lookup:
  "dict_getitem (descriptions (foldl (\<lambda>s (n, d, p). add_or_update_program s n d p) s0 ops)) name
     = (case find (\<lambda>(n, d, p). n = name) (rev ops) of
          Some (n, d, p) \<Rightarrow> Inr d
        | None \<Rightarrow> dict_getitem (descriptions s0) name)
   \<and> dict_getitem (programs (foldl (\<lambda>s (n, d, p). add_or_update_program s n d p) s0 ops)) name
     = (case find (\<lambda>(n, d, p). n = name) (rev ops) of
          Some (n, d, p) \<Rightarrow> Inr p
        | None \<Rightarrow> dict_getitem (programs s0) name)"
proof (induction ops rule: rev_induct)
  case Nil
  then show ?case by simp
next
  case (snoc op ops)
  obtain n d p where op: "op = (n, d, p)"
    by (cases op) auto
  show ?case
  proof (cases "n = name")
    case True
    then show ?thesis
      by (simp add: op add_or_update_program_def dict_getitem_setitem)
  next
    case False
    then show ?thesis
      using snoc.IH
      by (simp add: op add_or_update_program_def dict_getitem_setitem_other)
  qed
qed

text \<open>
  C7. Take a program space whose two dicts have the same keys, as the one
  \<open>ProgramSpace_init\<close> builds, and any sequence \<open>ops\<close> of \<^verbatim>\<open>add_or_update_program\<close>
  calls on it. After the sequence the key sets of \<^verbatim>\<open>descriptions\<close> and \<^verbatim>\<open>programs\<close> are
  equal; \<open>ops\<close> being any sequence, this holds after every call of it. Looking any
  name \<open>k\<close> up after the sequence gives the description and the program of the latest
  call for \<open>k\<close> in it, and what the space had for \<open>k\<close> at the start when no call
  names \<open>k\<close>: the latest upsert wins and no entry is lost. In particular, after one
  more call \<^verbatim>\<open>add_or_update_program(name, d, p)\<close>, looking \<open>name\<close> up gives \<open>d\<close> and
  \<open>p\<close>, whether \<open>name\<close> was a key before or not.
\<close>

theorem upsert_last_write_wins:
  assumes "dict_keys (descriptions s0) = dict_keys (programs s0)"
  shows "dict_keys (descriptions (foldl (\<lambda>s (n, d, p). add_or_update_program s n d p) s0 ops))
           = dict_keys (programs (foldl (\<lambda>s (n, d, p). add_or_update_program s n d p) s0 ops))
    \<and> dict_getitem (descriptions (foldl (\<lambda>s (n, d, p). add_or_update_program s n d p) s0 ops)) k
         = (case find (\<lambda>(n, d, p). n = k) (rev ops) of
              Some (n, d, p) \<Rightarrow> Inr d
            | None \<Rightarrow> dict_getitem (descriptions s0) k)
    \<and> dict_getitem (programs (foldl (\<lambda>s (n, d, p). add_or_update_program s n d p) s0 ops)) k
         = (case find (\<lambda>(n, d, p). n = k) (rev ops) of
              Some (n, d, p) \<Rightarrow> Inr p
            | None \<Rightarrow> dict_getitem (programs s0) k)
    \<and> dict_getitem (descriptions (add_or_update_program
          (foldl (\<lambda>s (n, d, p). add_or_update_program s n d p) s0 ops) name d p)) name = Inr d
    \<and> dict_getitem (programs (add_or_update_program
          (foldl (\<lambda>s (n, d, p). add_or_update_program s n d p) s0 ops) name d p)) name = Inr p"
  using assms upserts_lookup[of s0 ops k]
  by (simp add: upserts_keys) (simp add: add_or_update_program_def dict_getitem_setitem)

theorem upsert_last_write_wins_witness:
  "dict_keys (descriptions (ProgramSpace_init (ex_lm '''') :: nat ProgramSpace))
     = dict_keys (programs (ProgramSpace_init (ex_lm '''') :: nat ProgramSpace))
   \<and> dict_getitem (descriptions
        (foldl (\<lambda>s (n, d, p). add_or_update_program s n d p) (ProgramSpace_init (ex_lm ''''))
           [(''a'', ''first'', 1::nat), (''b'', ''other'', 2), (''a'', ''second'', 3)])) ''a''
      = Inr ''second''
   \<and> dict_getitem (programs
        (foldl (\<lambda>s (n, d, p). add_or_update_program s n d p) (ProgramSpace_init (ex_lm ''''))
           [(''a'', ''first'', 1::nat), (''b'', ''other'', 2), (''a'', ''second'', 3)])) ''a''
      = Inr 3
   \<and> dict_getitem (descriptions
        (foldl (\<lambda>s (n, d, p). add_or_update_program s n d p) (ProgramSpace_init (ex_lm ''''))
           [(''a'', ''first'', 1::nat), (''b'', ''other'', 2), (''a'', ''second'', 3)])) ''b''
      = Inr ''other''
   \<and> dict_getitem (programs
        (foldl (\<lambda>s (n, d, p). add_or_update_program s n d p) (ProgramSpace_init (ex_lm ''''))
           [(''a'', ''first'', 1::nat), (''b'', ''other'', 2), (''a'', ''second'', 3)])) ''b''
      = Inr 2
   \<and> dict_getitem (programs
        (foldl (\<lambda>s (n, d, p). add_or_update_program s n d p) (ProgramSpace_init (ex_lm ''''))
           [(''a'', ''first'', 1::nat), (''b'', ''other'', 2), (''a'', ''second'', 3)])) ''c''
      = Inl (KeyError ''c'')"
proof -
  have k: "dict_keys (descriptions (ProgramSpace_init (ex_lm '''') :: nat ProgramSpace))
     = dict_keys (programs (ProgramSpace_init (ex_lm '''') :: nat ProgramSpace))"
    by (simp add: ProgramSpace_init_def dict_keys_def)
  have e: "dict_getitem (programs (ProgramSpace_init (ex_lm '''') :: nat ProgramSpace)) ''c''
      = Inl (KeyError ''c'')"
    by (simp add: ProgramSpace_init_def dict_getitem_def)
  show ?thesis
    using k e
      upsert_last_write_wins[OF k,
        of "[(''a'', ''first'', 1), (''b'', ''other'', 2), (''a'', ''second'', 3)]" "''a''"]
      upsert_last_write_wins[OF k,
        of "[(''a'', ''first'', 1), (''b'', ''other'', 2), (''a'', ''second'', 3)]" "''b''"]
      upsert_last_write_wins[OF k,
        of "[(''a'', ''first'', 1), (''b'', ''other'', 2), (''a'', ''second'', 3)]" "''c''"]
    by simp
qed

section \<open>find_program\<close>


lemma find_program_exchange:
  "exchanges (lm (snd (find_program kinj T dumps self problem knowledge (Some rs))))
     = exchanges (lm self) @
         [(T problem (foldl (\<lambda>d r. dict_setitem d (unique_name r) (overview r)) [] rs)
             (dumps (descriptions self)),
           (case knowledge of None \<Rightarrow> None | Some ks \<Rightarrow> if ks \<noteq> [] then Some (kinj ks) else None),
           get_response (lm self)
             (T problem (foldl (\<lambda>d r. dict_setitem d (unique_name r) (overview r)) [] rs)
                (dumps (descriptions self)))
             (case knowledge of None \<Rightarrow> None | Some ks \<Rightarrow> if ks \<noteq> [] then Some (kinj ks) else None))]"
  by (simp add: find_program_def lm_get_response_def Let_def split: sum.splits)

lemma find_program_result:
  "fst (find_program kinj T dumps self problem knowledge (Some rs))
     = (let response = get_response (lm self)
             (T problem (foldl (\<lambda>d r. dict_setitem d (unique_name r) (overview r)) [] rs)
                (dumps (descriptions self)))
             (case knowledge of None \<Rightarrow> None | Some ks \<Rightarrow> if ks \<noteq> [] then Some (kinj ks) else None)
        in if str_startswith response ''NONE'' then Inr None
           else case dict_getitem (programs self) response of
                  Inl e \<Rightarrow> Inl e
                | Inr program \<Rightarrow> Inr (Some program))"
  by (simp add: find_program_def lm_get_response_def Let_def split: sum.splits)


text \<open>
  C3. For every registry, problem, knowledge and set of resources, a call of
  \<^verbatim>\<open>find_program\<close> makes one round trip to the language model, with the rendered
  prompt and the knowledge history, and it returns \<^verbatim>\<open>None\<close> if and only if the response
  of that round trip starts with \<^verbatim>\<open>NONE\<close>. (With \<^verbatim>\<open>resources\<close> omitted there is no
  response: see \<open>find_program_None\<close>.)
\<close>

theorem find_program_none_iff:
  "let prompt = T problem (foldl (\<lambda>d r. dict_setitem d (unique_name r) (overview r)) [] rs)
                  (dumps (descriptions self));
       history = (case knowledge of
                    None \<Rightarrow> None
                  | Some ks \<Rightarrow> if ks \<noteq> [] then Some (kinj ks) else None);
       response = get_response (lm self) prompt history
   in exchanges (lm (snd (find_program kinj T dumps self problem knowledge (Some rs))))
        = exchanges (lm self) @ [(prompt, history, response)]
      \<and> (fst (find_program kinj T dumps self problem knowledge (Some rs)) = Inr None
           \<longleftrightarrow> str_startswith response ''NONE'')"
  unfolding Let_def find_program_exchange find_program_result
  by (simp split: sum.splits)

theorem find_program_none_iff_witness:
  "fst (find_program ex_knowledge_msgs ex_template ex_json_dumps
          (ex_space ''NONE - no suitable program'') ''What is the free cash flow?'' None (Some []))
     = Inr None
   \<and> str_startswith ''NONE - no suitable program'' ''NONE''
   \<and> fst (find_program ex_knowledge_msgs ex_template ex_json_dumps
          (ex_space ''cash-flow-plan'') ''What is the free cash flow?'' None (Some []))
     = Inr (Some 1)
   \<and> \<not> str_startswith ''cash-flow-plan'' ''NONE''
   \<and> fst (find_program ex_knowledge_msgs ex_template ex_json_dumps
          (ex_space ''balance-sheet-plan'') ''What is the free cash flow?'' None (Some []))
     \<noteq> Inr None
   \<and> \<not> str_startswith ''balance-sheet-plan'' ''NONE''
   \<and> exchanges (lm (snd (find_program ex_knowledge_msgs ex_template ex_json_dumps
          (ex_space ''NONE - no suitable program'') ''What is the free cash flow?'' None (Some []))))
     = [(''What is the free cash flow? |  | cash-flow-plan: computes free cash flow; '',
         None, ''NONE - no suitable program'')]"
proof -
  have g: "get_response (lm (ex_space answer)) prompt history = answer" for answer prompt history
    by (simp add: ex_space_def add_or_update_program_def ProgramSpace_init_def ex_lm_def)
  have x: "exchanges (lm (ex_space answer)) = []" for answer
    by (simp add: ex_space_def add_or_update_program_def ProgramSpace_init_def ex_lm_def)
  have d: "descriptions (ex_space answer) = [(''cash-flow-plan'', ''computes free cash flow'')]"
    for answer
    by (simp add: ex_space_def add_or_update_program_def ProgramSpace_init_def)
  have c: "fst (find_program ex_knowledge_msgs ex_template ex_json_dumps
          (ex_space ''cash-flow-plan'') ''What is the free cash flow?'' None (Some []))
     = Inr (Some 1)"
    by (simp add: find_program_result g)
       (simp add: str_startswith_def ex_space_def add_or_update_program_def
          ProgramSpace_init_def dict_getitem_def)
  show ?thesis
    using c
      find_program_none_iff[where kinj = ex_knowledge_msgs and T = ex_template
        and dumps = ex_json_dumps and self = "ex_space ''NONE - no suitable program''"
        and problem = "''What is the free cash flow?''" and knowledge = None and rs = "[]"]
      find_program_none_iff[where kinj = ex_knowledge_msgs and T = ex_template
        and dumps = ex_json_dumps and self = "ex_space ''cash-flow-plan''"
        and problem = "''What is the free cash flow?''" and knowledge = None and rs = "[]"]
      find_program_none_iff[where kinj = ex_knowledge_msgs and T = ex_template
        and dumps = ex_json_dumps and self = "ex_space ''balance-sheet-plan''"
        and problem = "''What is the free cash flow?''" and knowledge = None and rs = "[]"]
    by (simp add: Let_def g x d) (simp add: str_startswith_def ex_template_def ex_json_dumps_def)
qed



text \<open>
  C5. The claim: the prompt is rendered from the problem, the overviews of the
  resources by unique name (the empty mapping when none are supplied) and the JSON text
  of \<^verbatim>\<open>descriptions\<close>, and rendering succeeds when \<^verbatim>\<open>resources\<close> is omitted. With
  resources supplied the prompt is the one of \<open>find_program_exchange\<close>. With
  \<^verbatim>\<open>resources\<close> omitted, its default \<^verbatim>\<open>None\<close> reaches the dict comprehension: for every
  program space, problem and knowledge the call raises \<^verbatim>\<open>TypeError\<close>, and no prompt is
  sent to the language model.
\<close>

theorem find_program_resources_omitted:
  "find_program kinj T dumps self problem knowledge None = (Inl TypeError, self)
   \<and> exchanges (lm (snd (find_program kinj T dumps self problem knowledge None)))
       = exchanges (lm self)"
  by (simp add: find_program_def)

end
